theory Spec2Isabelle
  imports Main "HOL-Library.Word"
begin

section \<open>Strings crossing the boundary\<close>

text \<open>
  A \<open>String::Utf8Value\<close> is modelled by the bytes of its buffer: \<open>length()\<close> is the
  number of bytes, and \<open>*value\<close> is a \<open>char*\<close>, which denotes the bytes before the
  first NUL byte. A \<open>const char*\<close> result is a \<open>string option\<close>: \<open>None\<close> is
  \<open>nullptr\<close>, \<open>Some s\<close> a freshly allocated buffer holding \<open>s\<close> and a terminator.
\<close>

type_synonym Utf8Value = string
type_synonym c_string = "string option"
type_synonym int32 = "32 word"

definition c_str :: "string \<Rightarrow> string" where
  "c_str bytes = takeWhile (\<lambda>c. c \<noteq> CHR 0x00) bytes"

text \<open>\<open>const char* CopyString(std::string str)\<close>: always a fresh, non-null buffer.\<close>

definition CopyString :: "string \<Rightarrow> c_string" where
  "CopyString str = Some str"

text \<open>
  \<open>const char* CopyString(String::Utf8Value& value)\<close>: a value of length zero gives
  \<open>nullptr\<close>; otherwise \<open>*value\<close> is converted to a \<open>std::string\<close> and copied.
\<close>

definition CopyString_Utf8 :: "Utf8Value \<Rightarrow> c_string" where
  "CopyString_Utf8 v = (if length v = 0 then None else CopyString (c_str v))"

subsection \<open>Decimal output of \<open>operator<<(int)\<close>\<close>

definition digit_char :: "nat \<Rightarrow> char" where
  "digit_char d = ''0123456789'' ! d"

fun show_nat :: "nat \<Rightarrow> string" where
  "show_nat n = (if n < 10 then [digit_char n] else show_nat (n div 10) @ [digit_char (n mod 10)])"

declare show_nat.simps [simp del]

definition show_int :: "int \<Rightarrow> string" where
  "show_int i = (if i < 0 then CHR ''-'' # show_nat (nat (- i)) else show_nat (nat i))"

section \<open>The error marshaller\<close>

text \<open>
  What the engine's \<open>TryCatch\<close> reports after a failed compile or run. The exception and
  the stack trace are carried as the \<open>String::Utf8Value\<close> the engine converts them to;
  \<open>tc_message\<close> is \<open>None\<close> when \<open>try_catch.Message()\<close> is an empty handle, and
  \<open>tc_stack_trace\<close> is \<open>None\<close> when \<open>try_catch.StackTrace(ctx)\<close> is empty. Of the
  resource name only \<open>*origin\<close> is used: \<open>resource_name\<close> is that C string. The
  line number and the start column are \<open>Maybe<int>\<close>, an \<open>int\<close> being 32 bits read
  as signed.
\<close>

record Message =
  resource_name :: string
  line_number :: "int32 option"
  start_column :: "int32 option"

record TryCatch =
  tc_has_terminated :: bool
  tc_exception :: Utf8Value
  tc_message :: "Message option"
  tc_stack_trace :: "Utf8Value option"

text \<open>
  Modelled from the spec: the declaration of \<open>RtnError\<close> is in the header \<open>v8go.h\<close>;
  the spec gives it as a fixed record of three optional strings: message, location, stack.
\<close>

record RtnError =
  msg :: c_string
  location :: c_string
  stack :: c_string

definition location_text :: "Message \<Rightarrow> string" where
  "location_text m =
     (let sb = resource_name m;
          sb = (case line_number m of None \<Rightarrow> sb | Some l \<Rightarrow> sb @ '':'' @ show_int (sint l));
          sb = (case start_column m of None \<Rightarrow> sb
                | Some start \<Rightarrow> sb @ '':'' @ show_int (sint (start + 1)))
      in sb)"

text \<open>
  \<open>RtnError ExceptionError(TryCatch& try_catch, Isolate* iso, Local<Context> ctx)\<close>.
  The isolate and the context only open scopes.
\<close>

definition ExceptionError :: "TryCatch \<Rightarrow> RtnError" where
  "ExceptionError try_catch =
     (let rtn = \<lparr>msg = None, location = None, stack = None\<rparr> in
      if tc_has_terminated try_catch then
        rtn\<lparr>msg := CopyString ''ExecutionTerminated: script execution has been terminated''\<rparr>
      else
        let rtn = rtn\<lparr>msg := CopyString_Utf8 (tc_exception try_catch)\<rparr>;
            rtn = (case tc_message try_catch of
                     None \<Rightarrow> rtn
                   | Some m \<Rightarrow> rtn\<lparr>location := CopyString (location_text m)\<rparr>);
            rtn = (case tc_stack_trace try_catch of
                     None \<Rightarrow> rtn
                   | Some st \<Rightarrow> rtn\<lparr>stack := CopyString_Utf8 st\<rparr>)
        in rtn)"

section \<open>Handles and the objects behind them\<close>

text \<open>
  The opaque handles (\<open>IsolatePtr\<close>, \<open>ContextPtr\<close>, \<open>ObjectTemplatePtr\<close>,
  \<open>ValuePtr\<close>) are pointers: \<open>None\<close> is \<open>nullptr\<close>, \<open>Some a\<close> the address
  \<open>a\<close>. A struct member that \<open>new\<close> leaves without a value and that no statement
  assigns is \<open>Indeterminate\<close>. What C++ leaves undefined (a null or dangling
  dereference, the use of an indeterminate pointer) and what the engine aborts on
  (\<open>ToChecked\<close> or \<open>ToLocalChecked\<close> on an empty result) is a \<open>fault\<close>.
\<close>

type_synonym addr = nat
type_synonym ptr = "addr option"
type_synonym double = "64 word"

datatype 'a member = Indeterminate | Assigned 'a

datatype fault = NullDereference | InvalidPointer | IndeterminateRead | EmptyMaybe

text \<open>
  Engine values, by what they hold. A \<open>double\<close> is carried as its 64 bits, a BigInt as
  the integer it denotes; \<open>JSObject\<close> stands for every value a script can produce that
  the host cannot construct.
\<close>

datatype js_value =
    JSUndefined
  | JSInteger int32
  | JSUnsignedInteger "32 word"
  | JSString string
  | JSBoolean bool
  | JSNumber double
  | JSBigInt int
  | JSObject nat

text \<open>
  An engine object template is the list of the properties set on it so far (name, value,
  attributes); \<open>ObjectTemplate::New(iso)\<close> is the empty one. An engine context is
  known by the template its global object was built from (\<open>Context::New(iso)\<close> passes
  none).
\<close>

type_synonym ObjectTemplate = "(js_value \<times> js_value \<times> int32) list"

definition ObjectTemplate_New :: ObjectTemplate where
  "ObjectTemplate_New = []"

datatype Context = Context_New "ObjectTemplate option"

record HeapStatistics =
  hs_total_heap_size :: "64 word"
  hs_total_heap_size_executable :: "64 word"
  hs_total_physical_size :: "64 word"
  hs_total_available_size :: "64 word"
  hs_used_heap_size :: "64 word"
  hs_heap_size_limit :: "64 word"
  hs_malloced_memory :: "64 word"
  hs_external_memory :: "64 word"
  hs_peak_malloced_memory :: "64 word"
  hs_number_of_native_contexts :: "64 word"
  hs_number_of_detached_contexts :: "64 word"

text \<open>
  Modelled from the spec: the declaration of \<open>IsolateHStatistics\<close> is in the header
  \<open>v8go.h\<close>; the spec gives it as a fixed record of eleven unsigned integers, and the
  eleven initialisers of \<open>IsolationGetHeapStatistics\<close> give their order.
\<close>

record IsolateHStatistics =
  total_heap_size :: "64 word"
  total_heap_size_executable :: "64 word"
  total_physical_size :: "64 word"
  total_available_size :: "64 word"
  used_heap_size :: "64 word"
  heap_size_limit :: "64 word"
  malloced_memory :: "64 word"
  external_memory :: "64 word"
  peak_malloced_memory :: "64 word"
  number_of_native_contexts :: "64 word"
  number_of_detached_contexts :: "64 word"

text \<open>The engine state of one isolate that this unit reads or writes.\<close>

record Isolate =
  capture_stack_trace_for_uncaught_exceptions :: bool
  heap_statistics :: HeapStatistics

record m_ctx =
  c_ptr :: Context
  c_iso :: "ptr member"

record m_value =
  v_ptr :: js_value
  v_iso :: "ptr member"
  ctx_ptr :: "ptr member"

record m_object_template =
  ot_ptr :: ObjectTemplate
  ot_iso :: "ptr member"

text \<open>
  The store: the live isolates and the live structs of each kind, by address, and the
  next address \<open>new\<close> hands out.
\<close>

record world =
  next_addr :: addr
  w_isolates :: "addr \<rightharpoonup> Isolate"
  w_contexts :: "addr \<rightharpoonup> m_ctx"
  w_templates :: "addr \<rightharpoonup> m_object_template"
  w_values :: "addr \<rightharpoonup> m_value"

definition empty_world :: world where
  "empty_world = \<lparr>next_addr = 0, w_isolates = Map.empty, w_contexts = Map.empty,
     w_templates = Map.empty, w_values = Map.empty\<rparr>"

text \<open>
  Modelled from the spec: the declarations of \<open>RtnValue\<close> and \<open>ValueBigInt\<close> are in
  the header \<open>v8go.h\<close>. \<open>RtnValue\<close> is the pair of a value handle and an error
  record (the initialiser \<open>{nullptr, nullptr}\<close> and the members \<open>value\<close> and
  \<open>error\<close> used by \<open>RunScript\<close>); \<open>ValueBigInt\<close> is the record of word array
  pointer, word count and sign bit, in the order of the initialiser in \<open>ValueToBigInt\<close>.
\<close>

record RtnValue =
  rtn_value :: ptr
  rtn_error :: RtnError

record ValueBigInt =
  word_array :: "64 word list option"
  word_count :: int32
  sign_bit :: int32

text \<open>
  The engine is a black box: what it answers is a parameter of the operations that ask it.
  \<open>Script_Compile\<close> and \<open>Script_Run\<close> give the \<open>TryCatch\<close> on an empty result;
  the conversions return \<open>None\<close> for an empty \<open>Maybe\<close> or \<open>MaybeLocal\<close>.
  \<open>Context_New_statistics\<close> gives the heap statistics of an isolate once
  \<open>Context::New\<close> has allocated a context in its heap, from those before.
\<close>

record 's engine =
  String_NewFromUtf8 :: "string \<Rightarrow> js_value option"
  Script_Compile :: "Context \<Rightarrow> js_value \<Rightarrow> js_value \<Rightarrow> TryCatch + 's"
  Script_Run :: "'s \<Rightarrow> Context \<Rightarrow> TryCatch + js_value"
  Context_New_statistics :: "HeapStatistics \<Rightarrow> HeapStatistics"
  BigInt_NewFromWords :: "Context \<Rightarrow> int32 \<Rightarrow> int32 \<Rightarrow> 64 word list \<Rightarrow> js_value option"
  Utf8Value_of :: "js_value \<Rightarrow> Utf8Value"
  ToArrayIndex :: "js_value \<Rightarrow> Context \<Rightarrow> 32 word option"
  BooleanValue :: "js_value \<Rightarrow> bool"
  Int32Value :: "js_value \<Rightarrow> Context \<Rightarrow> int32 option"
  IntegerValue :: "js_value \<Rightarrow> Context \<Rightarrow> 64 word option"
  NumberValue :: "js_value \<Rightarrow> Context \<Rightarrow> double option"
  Uint32Value :: "js_value \<Rightarrow> Context \<Rightarrow> 32 word option"
  ToDetailString :: "js_value \<Rightarrow> Context \<Rightarrow> js_value option"
  ToBigInt :: "js_value \<Rightarrow> Context \<Rightarrow> js_value option"
  WordCount :: "js_value \<Rightarrow> int32"
  ToWordsArray :: "js_value \<Rightarrow> int32 \<Rightarrow> int32 \<times> int32 \<times> 64 word list"

section \<open>Isolate\<close>

text \<open>
  \<open>ISOLATE_SCOPE\<close>, and the same four lines where they are written out: the
  \<open>Locker\<close> and the scopes need a live isolate.
\<close>

definition ISOLATE_SCOPE :: "world \<Rightarrow> ptr \<Rightarrow> fault + addr \<times> Isolate" where
  "ISOLATE_SCOPE w iso_ptr =
     (case iso_ptr of
        None \<Rightarrow> Inl NullDereference
      | Some a \<Rightarrow> (case w_isolates w a of
                    None \<Rightarrow> Inl InvalidPointer
                  | Some i \<Rightarrow> Inr (a, i)))"

text \<open>
  \<open>NewIsolate\<close>: \<open>Isolate::New(params)\<close>; \<open>hs\<close> is what the engine reports of the
  new heap.
\<close>

definition NewIsolate :: "HeapStatistics \<Rightarrow> world \<Rightarrow> ptr \<times> world" where
  "NewIsolate hs w =
     (let a = next_addr w;
          i = \<lparr>capture_stack_trace_for_uncaught_exceptions = False, heap_statistics = hs\<rparr>
      in (Some a, w\<lparr>next_addr := Suc a, w_isolates := (w_isolates w)(a \<mapsto> i)\<rparr>))"

definition IsolateDispose :: "ptr \<Rightarrow> world \<Rightarrow> fault + world" where
  "IsolateDispose ptr w =
     (case ptr of
        None \<Rightarrow> Inr w
      | Some a \<Rightarrow> (case w_isolates w a of
                    None \<Rightarrow> Inl InvalidPointer
                  | Some i \<Rightarrow> Inr (w\<lparr>w_isolates := (w_isolates w)(a := None)\<rparr>)))"

definition IsolationGetHeapStatistics :: "ptr \<Rightarrow> world \<Rightarrow> fault + IsolateHStatistics \<times> world" where
  "IsolationGetHeapStatistics ptr w =
     (case ptr of
        None \<Rightarrow>
          Inr (\<lparr>total_heap_size = 0, total_heap_size_executable = 0, total_physical_size = 0,
                total_available_size = 0, used_heap_size = 0, heap_size_limit = 0,
                malloced_memory = 0, external_memory = 0, peak_malloced_memory = 0,
                number_of_native_contexts = 0, number_of_detached_contexts = 0\<rparr>, w)
      | Some a \<Rightarrow>
          (case w_isolates w a of
             None \<Rightarrow> Inl InvalidPointer
           | Some i \<Rightarrow>
               (let hs = heap_statistics i in
                Inr (\<lparr>total_heap_size = hs_total_heap_size hs,
                      total_heap_size_executable = hs_total_heap_size_executable hs,
                      total_physical_size = hs_total_physical_size hs,
                      total_available_size = hs_total_available_size hs,
                      used_heap_size = hs_used_heap_size hs,
                      heap_size_limit = hs_heap_size_limit hs,
                      malloced_memory = hs_malloced_memory hs,
                      external_memory = hs_external_memory hs,
                      peak_malloced_memory = hs_peak_malloced_memory hs,
                      number_of_native_contexts = hs_number_of_native_contexts hs,
                      number_of_detached_contexts = hs_number_of_detached_contexts hs\<rparr>, w))))"

section \<open>ObjectTemplate\<close>

definition NewObjectTemplate :: "ptr \<Rightarrow> world \<Rightarrow> fault + ptr \<times> world" where
  "NewObjectTemplate iso_ptr w =
     (case ISOLATE_SCOPE w iso_ptr of
        Inl f \<Rightarrow> Inl f
      | Inr (iso', i) \<Rightarrow>
          (let a = next_addr w;
               ot = \<lparr>ot_ptr = ObjectTemplate_New, ot_iso = Assigned (Some iso')\<rparr>
           in Inr (Some a, w\<lparr>next_addr := Suc a, w_templates := (w_templates w)(a \<mapsto> ot)\<rparr>)))"

text \<open>\<open>delete\<close> of a null pointer does nothing; of any other, it needs a live object.\<close>

definition ObjectTemplateDispose :: "ptr \<Rightarrow> world \<Rightarrow> fault + world" where
  "ObjectTemplateDispose ptr w =
     (case ptr of
        None \<Rightarrow> Inr w
      | Some a \<Rightarrow> (case w_templates w a of
                    None \<Rightarrow> Inl InvalidPointer
                  | Some ot \<Rightarrow> Inr (w\<lparr>w_templates := (w_templates w)(a := None)\<rparr>)))"

definition LOCAL_OBJECT_TEMPLATE :: "world \<Rightarrow> ptr \<Rightarrow> fault + addr \<times> m_object_template" where
  "LOCAL_OBJECT_TEMPLATE w ptr =
     (case ptr of
        None \<Rightarrow> Inl NullDereference
      | Some a \<Rightarrow>
          (case w_templates w a of
             None \<Rightarrow> Inl InvalidPointer
           | Some ot \<Rightarrow>
               (case ot_iso ot of
                  Indeterminate \<Rightarrow> Inl IndeterminateRead
                | Assigned iso' \<Rightarrow>
                    (case ISOLATE_SCOPE w iso' of
                       Inl f \<Rightarrow> Inl f
                     | Inr _ \<Rightarrow> Inr (a, ot)))))"

definition ObjectTemplateSetValue :: "'s engine \<Rightarrow> ptr \<Rightarrow> string \<Rightarrow> ptr \<Rightarrow> int32 \<Rightarrow> world \<Rightarrow> fault + world" where
  "ObjectTemplateSetValue eng ptr name val_ptr attributes w =
     (case LOCAL_OBJECT_TEMPLATE w ptr of
        Inl f \<Rightarrow> Inl f
      | Inr (a, ot) \<Rightarrow>
          (case String_NewFromUtf8 eng (c_str name) of
             None \<Rightarrow> Inl EmptyMaybe
           | Some prop_name \<Rightarrow>
               (case val_ptr of
                  None \<Rightarrow> Inl NullDereference
                | Some v \<Rightarrow>
                    (case w_values w v of
                       None \<Rightarrow> Inl InvalidPointer
                     | Some val \<Rightarrow>
                         Inr (w\<lparr>w_templates := (w_templates w)
                               (a \<mapsto> ot\<lparr>ot_ptr := ot_ptr ot @ [(prop_name, v_ptr val, attributes)]\<rparr>)\<rparr>)))))"

section \<open>Context\<close>

text \<open>
  \<open>NewContext\<close>. The call of \<open>SetCaptureStackTraceForUncaughtExceptions(true)\<close>
  stands after the \<open>if\<close>, so it is made for a null and for a non-null template alike;
  \<open>Context::New\<close> then allocates the context in the isolate's heap.
\<close>

definition NewContext :: "'s engine \<Rightarrow> ptr \<Rightarrow> ptr \<Rightarrow> world \<Rightarrow> fault + ptr \<times> world" where
  "NewContext eng iso_ptr global_template_ptr w =
     (case ISOLATE_SCOPE w iso_ptr of
        Inl f \<Rightarrow> Inl f
      | Inr (iso', i) \<Rightarrow>
          (case (case global_template_ptr of
                   Some t \<Rightarrow> (case w_templates w t of
                                 None \<Rightarrow> Inl InvalidPointer
                               | Some ob \<Rightarrow> Inr (ot_ptr ob))
                 | None \<Rightarrow> Inr ObjectTemplate_New) of
             Inl f \<Rightarrow> Inl f
           | Inr global_template \<Rightarrow>
               (let i' = i\<lparr>capture_stack_trace_for_uncaught_exceptions := True\<rparr>;
                    i' = i'\<lparr>heap_statistics := Context_New_statistics eng (heap_statistics i')\<rparr>;
                    a = next_addr w;
                    ctx = \<lparr>c_ptr = Context_New (Some global_template), c_iso = Assigned (Some iso')\<rparr>
                in Inr (Some a, w\<lparr>next_addr := Suc a,
                                  w_isolates := (w_isolates w)(iso' \<mapsto> i'),
                                  w_contexts := (w_contexts w)(a \<mapsto> ctx)\<rparr>))))"

definition new_m_value :: "m_value \<Rightarrow> world \<Rightarrow> ptr \<times> world" where
  "new_m_value val w =
     (let a = next_addr w
      in (Some a, w\<lparr>next_addr := Suc a, w_values := (w_values w)(a \<mapsto> val)\<rparr>))"

definition RunScript :: "'s engine \<Rightarrow> ptr \<Rightarrow> string \<Rightarrow> string \<Rightarrow> world \<Rightarrow> fault + RtnValue \<times> world" where
  "RunScript eng ctx_ptr' source origin w =
     (case ctx_ptr' of
        None \<Rightarrow> Inl NullDereference
      | Some c \<Rightarrow>
          (case w_contexts w c of
             None \<Rightarrow> Inl InvalidPointer
           | Some ctx \<Rightarrow>
               (case c_iso ctx of
                  Indeterminate \<Rightarrow> Inl IndeterminateRead
                | Assigned iso' \<Rightarrow>
                    (case ISOLATE_SCOPE w iso' of
                       Inl f \<Rightarrow> Inl f
                     | Inr _ \<Rightarrow>
                         (let local_ctx = c_ptr ctx in
                          case String_NewFromUtf8 eng (c_str source) of
                            None \<Rightarrow> Inl EmptyMaybe
                          | Some src \<Rightarrow>
                          (case String_NewFromUtf8 eng (c_str origin) of
                            None \<Rightarrow> Inl EmptyMaybe
                          | Some ogn \<Rightarrow>
                          (let rtn = \<lparr>rtn_value = None,
                                      rtn_error = \<lparr>msg = None, location = None, stack = None\<rparr>\<rparr>
                           in case Script_Compile eng local_ctx src ogn of
                                Inl try_catch \<Rightarrow>
                                  Inr (rtn\<lparr>rtn_error := ExceptionError try_catch\<rparr>, w)
                              | Inr script \<Rightarrow>
                                  (case Script_Run eng script local_ctx of
                                     Inl try_catch \<Rightarrow>
                                       Inr (rtn\<lparr>rtn_error := ExceptionError try_catch\<rparr>, w)
                                   | Inr result \<Rightarrow>
                                       (let val = \<lparr>v_ptr = result, v_iso = Assigned iso',
                                                    ctx_ptr = Assigned (Some c)\<rparr>;
                                            (p, w') = new_m_value val w
                                        in Inr (rtn\<lparr>rtn_value := p\<rparr>, w'))))))))))"

definition ContextDispose :: "ptr \<Rightarrow> world \<Rightarrow> fault + world" where
  "ContextDispose ptr w =
     (case ptr of
        None \<Rightarrow> Inr w
      | Some a \<Rightarrow> (case w_contexts w a of
                    None \<Rightarrow> Inl InvalidPointer
                  | Some ctx \<Rightarrow> Inr (w\<lparr>w_contexts := (w_contexts w)(a := None)\<rparr>)))"

section \<open>Value\<close>

text \<open>
  \<open>LOCAL_VALUE\<close>, in the order of its lines: the handle is dereferenced, its
  \<open>ctx_ptr\<close> and \<open>iso\<close> members are read, the isolate is locked and entered, and
  \<open>ctx->ptr.Get(iso)\<close> dereferences the context pointer to enter the context.
  It yields the context and the value.
\<close>

definition LOCAL_VALUE :: "world \<Rightarrow> ptr \<Rightarrow> fault + Context \<times> js_value" where
  "LOCAL_VALUE w ptr =
     (case ptr of
        None \<Rightarrow> Inl NullDereference
      | Some a \<Rightarrow>
          (case w_values w a of
             None \<Rightarrow> Inl InvalidPointer
           | Some val \<Rightarrow>
               (case ctx_ptr val of
                  Indeterminate \<Rightarrow> Inl IndeterminateRead
                | Assigned ctx \<Rightarrow>
                    (case v_iso val of
                       Indeterminate \<Rightarrow> Inl IndeterminateRead
                     | Assigned iso' \<Rightarrow>
                         (case ISOLATE_SCOPE w iso' of
                            Inl f \<Rightarrow> Inl f
                          | Inr _ \<Rightarrow>
                              (case ctx of
                                 None \<Rightarrow> Inl NullDereference
                               | Some c \<Rightarrow>
                                   (case w_contexts w c of
                                      None \<Rightarrow> Inl InvalidPointer
                                    | Some mc \<Rightarrow> Inr (c_ptr mc, v_ptr val))))))))"

text \<open>
  The constructors. Each one assigns \<open>val->iso\<close> and \<open>val->ptr\<close>; none has a
  statement that assigns \<open>val->ctx_ptr\<close>.
\<close>

definition NewValueInteger :: "ptr \<Rightarrow> int32 \<Rightarrow> world \<Rightarrow> fault + ptr \<times> world" where
  "NewValueInteger iso_ptr v w =
     (case ISOLATE_SCOPE w iso_ptr of
        Inl f \<Rightarrow> Inl f
      | Inr (iso', i) \<Rightarrow>
          Inr (new_m_value \<lparr>v_ptr = JSInteger v, v_iso = Assigned (Some iso'),
                            ctx_ptr = Indeterminate\<rparr> w))"

definition NewValueIntegerFromUnsigned :: "ptr \<Rightarrow> 32 word \<Rightarrow> world \<Rightarrow> fault + ptr \<times> world" where
  "NewValueIntegerFromUnsigned iso_ptr v w =
     (case ISOLATE_SCOPE w iso_ptr of
        Inl f \<Rightarrow> Inl f
      | Inr (iso', i) \<Rightarrow>
          Inr (new_m_value \<lparr>v_ptr = JSUnsignedInteger v, v_iso = Assigned (Some iso'),
                            ctx_ptr = Indeterminate\<rparr> w))"

definition NewValueString :: "'s engine \<Rightarrow> ptr \<Rightarrow> string \<Rightarrow> world \<Rightarrow> fault + ptr \<times> world" where
  "NewValueString eng iso_ptr v w =
     (case ISOLATE_SCOPE w iso_ptr of
        Inl f \<Rightarrow> Inl f
      | Inr (iso', i) \<Rightarrow>
          (case String_NewFromUtf8 eng (c_str v) of
             None \<Rightarrow> Inl EmptyMaybe
           | Some str \<Rightarrow>
               Inr (new_m_value \<lparr>v_ptr = str, v_iso = Assigned (Some iso'),
                                 ctx_ptr = Indeterminate\<rparr> w)))"

definition NewValueBoolean :: "ptr \<Rightarrow> int32 \<Rightarrow> world \<Rightarrow> fault + ptr \<times> world" where
  "NewValueBoolean iso_ptr v w =
     (case ISOLATE_SCOPE w iso_ptr of
        Inl f \<Rightarrow> Inl f
      | Inr (iso', i) \<Rightarrow>
          Inr (new_m_value \<lparr>v_ptr = JSBoolean (v \<noteq> 0), v_iso = Assigned (Some iso'),
                            ctx_ptr = Indeterminate\<rparr> w))"

definition NewValueNumber :: "ptr \<Rightarrow> double \<Rightarrow> world \<Rightarrow> fault + ptr \<times> world" where
  "NewValueNumber iso_ptr v w =
     (case ISOLATE_SCOPE w iso_ptr of
        Inl f \<Rightarrow> Inl f
      | Inr (iso', i) \<Rightarrow>
          Inr (new_m_value \<lparr>v_ptr = JSNumber v, v_iso = Assigned (Some iso'),
                            ctx_ptr = Indeterminate\<rparr> w))"

definition NewValueBigInt :: "ptr \<Rightarrow> 64 word \<Rightarrow> world \<Rightarrow> fault + ptr \<times> world" where
  "NewValueBigInt iso_ptr v w =
     (case ISOLATE_SCOPE w iso_ptr of
        Inl f \<Rightarrow> Inl f
      | Inr (iso', i) \<Rightarrow>
          Inr (new_m_value \<lparr>v_ptr = JSBigInt (sint v), v_iso = Assigned (Some iso'),
                            ctx_ptr = Indeterminate\<rparr> w))"

definition NewValueBigIntFromUnsigned :: "ptr \<Rightarrow> 64 word \<Rightarrow> world \<Rightarrow> fault + ptr \<times> world" where
  "NewValueBigIntFromUnsigned iso_ptr v w =
     (case ISOLATE_SCOPE w iso_ptr of
        Inl f \<Rightarrow> Inl f
      | Inr (iso', i) \<Rightarrow>
          Inr (new_m_value \<lparr>v_ptr = JSBigInt (uint v), v_iso = Assigned (Some iso'),
                            ctx_ptr = Indeterminate\<rparr> w))"

text \<open>
  The temporary context of \<open>NewValueBigIntFromWords\<close> is a local handle: it is passed to
  the engine and stored nowhere.
\<close>

definition NewValueBigIntFromWords ::
  "'s engine \<Rightarrow> ptr \<Rightarrow> int32 \<Rightarrow> int32 \<Rightarrow> 64 word list \<Rightarrow> world \<Rightarrow> fault + ptr \<times> world" where
  "NewValueBigIntFromWords eng iso_ptr sign_bit' word_count' words w =
     (case ISOLATE_SCOPE w iso_ptr of
        Inl f \<Rightarrow> Inl f
      | Inr (iso', i) \<Rightarrow>
          (let ctx = Context_New None in
           case BigInt_NewFromWords eng ctx sign_bit' word_count' words of
             None \<Rightarrow> Inl EmptyMaybe
           | Some bigint \<Rightarrow>
               Inr (new_m_value \<lparr>v_ptr = bigint, v_iso = Assigned (Some iso'),
                                 ctx_ptr = Indeterminate\<rparr> w)))"

definition ValueDispose :: "ptr \<Rightarrow> world \<Rightarrow> fault + world" where
  "ValueDispose ptr w =
     (case ptr of
        None \<Rightarrow> Inr w
      | Some a \<Rightarrow> (case w_values w a of
                    None \<Rightarrow> Inl InvalidPointer
                  | Some val \<Rightarrow> Inr (w\<lparr>w_values := (w_values w)(a := None)\<rparr>)))"

text \<open>
  The conversions. A \<open>const uint32_t*\<close> or \<open>const char*\<close> result is an option
  (\<open>None\<close> is \<open>nullptr\<close>); \<open>ToChecked\<close> and \<open>ToLocalChecked\<close> on an empty result
  are fatal.
\<close>

definition ValueToArrayIndex :: "'s engine \<Rightarrow> ptr \<Rightarrow> world \<Rightarrow> fault + 32 word option" where
  "ValueToArrayIndex eng ptr w =
     (case LOCAL_VALUE w ptr of
        Inl f \<Rightarrow> Inl f
      | Inr (ctx, v) \<Rightarrow>
          (case ToArrayIndex eng v ctx of
             None \<Rightarrow> Inr None
           | Some idx \<Rightarrow> Inr (Some idx)))"

definition ValueToBoolean :: "'s engine \<Rightarrow> ptr \<Rightarrow> world \<Rightarrow> fault + int32" where
  "ValueToBoolean eng ptr w =
     (case LOCAL_VALUE w ptr of
        Inl f \<Rightarrow> Inl f
      | Inr (ctx, v) \<Rightarrow> Inr (if BooleanValue eng v then 1 else 0))"

definition ValueToInt32 :: "'s engine \<Rightarrow> ptr \<Rightarrow> world \<Rightarrow> fault + int32" where
  "ValueToInt32 eng ptr w =
     (case LOCAL_VALUE w ptr of
        Inl f \<Rightarrow> Inl f
      | Inr (ctx, v) \<Rightarrow>
          (case Int32Value eng v ctx of None \<Rightarrow> Inl EmptyMaybe | Some r \<Rightarrow> Inr r))"

definition ValueToInteger :: "'s engine \<Rightarrow> ptr \<Rightarrow> world \<Rightarrow> fault + 64 word" where
  "ValueToInteger eng ptr w =
     (case LOCAL_VALUE w ptr of
        Inl f \<Rightarrow> Inl f
      | Inr (ctx, v) \<Rightarrow>
          (case IntegerValue eng v ctx of None \<Rightarrow> Inl EmptyMaybe | Some r \<Rightarrow> Inr r))"

definition ValueToNumber :: "'s engine \<Rightarrow> ptr \<Rightarrow> world \<Rightarrow> fault + double" where
  "ValueToNumber eng ptr w =
     (case LOCAL_VALUE w ptr of
        Inl f \<Rightarrow> Inl f
      | Inr (ctx, v) \<Rightarrow>
          (case NumberValue eng v ctx of None \<Rightarrow> Inl EmptyMaybe | Some r \<Rightarrow> Inr r))"

definition ValueToDetailString :: "'s engine \<Rightarrow> ptr \<Rightarrow> world \<Rightarrow> fault + c_string" where
  "ValueToDetailString eng ptr w =
     (case LOCAL_VALUE w ptr of
        Inl f \<Rightarrow> Inl f
      | Inr (ctx, v) \<Rightarrow>
          (case ToDetailString eng v ctx of
             None \<Rightarrow> Inl EmptyMaybe
           | Some ds \<Rightarrow> Inr (CopyString_Utf8 (Utf8Value_of eng ds))))"

definition ValueToString :: "'s engine \<Rightarrow> ptr \<Rightarrow> world \<Rightarrow> fault + c_string" where
  "ValueToString eng ptr w =
     (case LOCAL_VALUE w ptr of
        Inl f \<Rightarrow> Inl f
      | Inr (ctx, v) \<Rightarrow> Inr (CopyString_Utf8 (Utf8Value_of eng v)))"

definition ValueToUint32 :: "'s engine \<Rightarrow> ptr \<Rightarrow> world \<Rightarrow> fault + 32 word" where
  "ValueToUint32 eng ptr w =
     (case LOCAL_VALUE w ptr of
        Inl f \<Rightarrow> Inl f
      | Inr (ctx, v) \<Rightarrow>
          (case Uint32Value eng v ctx of None \<Rightarrow> Inl EmptyMaybe | Some r \<Rightarrow> Inr r))"

definition ValueToBigInt :: "'s engine \<Rightarrow> ptr \<Rightarrow> world \<Rightarrow> fault + ValueBigInt" where
  "ValueToBigInt eng ptr w =
     (case LOCAL_VALUE w ptr of
        Inl f \<Rightarrow> Inl f
      | Inr (ctx, v) \<Rightarrow>
          (case ToBigInt eng v ctx of
             None \<Rightarrow> Inr \<lparr>word_array = None, word_count = 0, sign_bit = 0\<rparr>
           | Some bint \<Rightarrow>
               (let wc = WordCount eng bint;
                    (sb, wc', words) = ToWordsArray eng bint wc
                in Inr \<lparr>word_array = Some words, word_count = wc', sign_bit = sb\<rparr>)))"

text \<open>
  The type predicates \<open>ValueIsUndefined\<close> to \<open>ValueIsModuleNamespaceObject\<close>
  are one function each of the same two lines, \<open>LOCAL_VALUE(ptr)\<close> and
  \<open>return value->IsX()\<close>; \<open>is_x\<close> is the engine's predicate.
\<close>

definition ValueIs :: "(js_value \<Rightarrow> bool) \<Rightarrow> ptr \<Rightarrow> world \<Rightarrow> fault + int32" where
  "ValueIs is_x ptr w =
     (case LOCAL_VALUE w ptr of
        Inl f \<Rightarrow> Inl f
      | Inr (ctx, v) \<Rightarrow> Inr (if is_x v then 1 else 0))"

section \<open>A stand-in engine and a starting world for the checked examples\<close>

text \<open>
  An engine that answers as the real one does on the inputs of the examples: strings are
  kept as their bytes; the source \<open>function (\<close> does not compile; running the source
  \<open>throw String()\<close> throws the empty string, for which the engine attaches a message
  at line 1, column 0 of the origin and has no stack trace (the thrown value is not an
  object); the source \<open>1n\<close> runs to the BigInt 1 and \<open>String()\<close> to the empty
  string; every other source runs to \<open>undefined\<close>. A new context takes 64 KiB of the
  heap and counts as one more native context. BigInts of one word are converted
  to and from their word.
\<close>

definition example_engine :: "(js_value \<times> js_value) engine" where
  "example_engine =
     \<lparr>String_NewFromUtf8 = (\<lambda>s. Some (JSString s)),
      Script_Compile = (\<lambda>ctx src ogn.
        if src = JSString ''function (''
        then Inl \<lparr>tc_has_terminated = False,
                  tc_exception = ''SyntaxError: Function statements require a function name'',
                  tc_message = Some \<lparr>resource_name = (case ogn of JSString s \<Rightarrow> s | _ \<Rightarrow> ''undefined''),
                                      line_number = Some 1, start_column = Some 9\<rparr>,
                  tc_stack_trace = None\<rparr>
        else Inr (src, ogn)),
      Script_Run = (\<lambda>script ctx.
        if fst script = JSString ''throw String()''
        then Inl \<lparr>tc_has_terminated = False,
                  tc_exception = [],
                  tc_message = Some \<lparr>resource_name = (case snd script of JSString s \<Rightarrow> s | _ \<Rightarrow> ''undefined''),
                                      line_number = Some 1, start_column = Some 0\<rparr>,
                  tc_stack_trace = None\<rparr>
        else if fst script = JSString ''1n'' then Inr (JSBigInt 1)
        else if fst script = JSString ''String()'' then Inr (JSString [])
        else Inr JSUndefined),
      Context_New_statistics = (\<lambda>hs.
        hs\<lparr>hs_used_heap_size := hs_used_heap_size hs + 65536,
           hs_number_of_native_contexts := hs_number_of_native_contexts hs + 1\<rparr>),
      BigInt_NewFromWords = (\<lambda>ctx sb wc ws.
        if wc = 1 then Some (JSBigInt ((if sb = 0 then 1 else - 1) * uint (hd ws))) else None),
      Utf8Value_of = (\<lambda>v. case v of JSString s \<Rightarrow> s | _ \<Rightarrow> ''undefined''),
      ToArrayIndex = (\<lambda>v ctx. case v of JSUnsignedInteger u \<Rightarrow> Some u | _ \<Rightarrow> None),
      BooleanValue = (\<lambda>v. case v of JSBoolean b \<Rightarrow> b | _ \<Rightarrow> False),
      Int32Value = (\<lambda>v ctx. case v of JSInteger i \<Rightarrow> Some i | _ \<Rightarrow> None),
      IntegerValue = (\<lambda>v ctx. case v of JSInteger i \<Rightarrow> Some (scast i) | _ \<Rightarrow> None),
      NumberValue = (\<lambda>v ctx. case v of JSNumber d \<Rightarrow> Some d | _ \<Rightarrow> None),
      Uint32Value = (\<lambda>v ctx. case v of JSUnsignedInteger u \<Rightarrow> Some u | _ \<Rightarrow> None),
      ToDetailString = (\<lambda>v ctx. Some v),
      ToBigInt = (\<lambda>v ctx. case v of JSBigInt n \<Rightarrow> Some v | _ \<Rightarrow> None),
      WordCount = (\<lambda>v. case v of JSBigInt n \<Rightarrow> (if n = 0 then 0 else 1) | _ \<Rightarrow> 0),
      ToWordsArray = (\<lambda>v wc. case v of
          JSBigInt n \<Rightarrow> (if n < 0 then 1 else 0, wc, if n = 0 then [] else [word_of_int \<bar>n\<bar>])
        | _ \<Rightarrow> (0, 0, []))\<rparr>"

definition example_statistics :: HeapStatistics where
  "example_statistics =
     \<lparr>hs_total_heap_size = 1048576, hs_total_heap_size_executable = 262144,
      hs_total_physical_size = 1048576, hs_total_available_size = 1073741824,
      hs_used_heap_size = 524288, hs_heap_size_limit = 1610612736,
      hs_malloced_memory = 8192, hs_external_memory = 0, hs_peak_malloced_memory = 16384,
      hs_number_of_native_contexts = 0, hs_number_of_detached_contexts = 0\<rparr>"

text \<open>The world after \<open>NewIsolate\<close> on the empty one: one isolate, at address 0.\<close>

definition one_isolate :: world where
  "one_isolate = snd (NewIsolate example_statistics empty_world)"

text \<open>The world after \<open>NewContext\<close> with a null template on that isolate: one context, at address 1.\<close>

definition one_context :: world where
  "one_context = (case NewContext example_engine (Some 0) None one_isolate of Inr (c, w) \<Rightarrow> w | Inl f \<Rightarrow> one_isolate)"

text \<open>The world after \<open>NewObjectTemplate\<close> on that isolate: one template, at address 1.\<close>

definition one_template :: world where
  "one_template = (case NewObjectTemplate (Some 0) one_isolate of Inr (t, w) \<Rightarrow> w | Inl f \<Rightarrow> one_isolate)"

section \<open>Facts about the marshaller\<close>

lemma c_str_no_nul: "CHR 0x00 \<notin> set s \<Longrightarrow> c_str s = s"
  by (auto simp: c_str_def)

text \<open>Below \<open>INT_MAX\<close> the \<open>int\<close> addition \<open>start + 1\<close> is the integer successor.\<close>

lemma sint_column_plus_one:
  fixes start :: int32
  shows "sint start < 2147483647 \<Longrightarrow> sint (start + 1) = sint start + 1"
proof -
  assume lt: "sint start < 2147483647"
  have ge: "- (2 ^ 31) \<le> sint start"
    using sint_ge [of start] by simp
  have "sint (start + 1) = signed_take_bit 31 (sint start + 1)"
    by (simp add: sint_word_ariths word_size)
  also have "\<dots> = sint start + 1"
    using lt ge by (intro signed_take_bit_int_eq_self) simp_all
  finally show ?thesis .
qed

text \<open>
  C3, as the specification states it: a terminated execution gives the message
  \<open>execution terminated\<close>. The code's message is another string, so the statement fails
  on a terminated \<open>TryCatch\<close>.
\<close>

theorem terminated_sentinel_counterexample:
  "msg (ExceptionError \<lparr>tc_has_terminated = True, tc_exception = [], tc_message = None,
          tc_stack_trace = None\<rparr>) \<noteq> Some ''execution terminated''"
  by (simp add: ExceptionError_def CopyString_def)

text \<open>
  C3, amended: whenever execution has terminated, the error record has exactly the fixed
  message \<open>ExecutionTerminated: script execution has been terminated\<close>, and its
  location and stack are both absent, whatever else the \<open>TryCatch\<close> holds.
\<close>

theorem terminated_error_record:
  "tc_has_terminated tc \<Longrightarrow>
   ExceptionError tc =
     \<lparr>msg = Some ''ExecutionTerminated: script execution has been terminated'',
      location = None, stack = None\<rparr>"
  by (simp add: ExceptionError_def CopyString_def)

theorem terminated_error_record_witness:
  "tc_has_terminated \<lparr>tc_has_terminated = True, tc_exception = ''Error: x'',
       tc_message = Some \<lparr>resource_name = ''x.js'', line_number = Some 1, start_column = Some 0\<rparr>,
       tc_stack_trace = Some ''Error: x at x.js:1:1''\<rparr> \<and>
   ExceptionError \<lparr>tc_has_terminated = True, tc_exception = ''Error: x'',
       tc_message = Some \<lparr>resource_name = ''x.js'', line_number = Some 1, start_column = Some 0\<rparr>,
       tc_stack_trace = Some ''Error: x at x.js:1:1''\<rparr> =
     \<lparr>msg = Some ''ExecutionTerminated: script execution has been terminated'',
      location = None, stack = None\<rparr>"
  using terminated_error_record [of "\<lparr>tc_has_terminated = True, tc_exception = ''Error: x'',
       tc_message = Some \<lparr>resource_name = ''x.js'', line_number = Some 1, start_column = Some 0\<rparr>,
       tc_stack_trace = Some ''Error: x at x.js:1:1''\<rparr>"]
  by simp

text \<open>
  C4: for a \<open>TryCatch\<close> that has not terminated and carries a message, the location is
  the resource name, then \<open>:\<close> and the line number in decimal only when the engine
  reports a line, then \<open>:\<close> and the start column plus one in decimal (the \<open>int\<close>
  addition, the integer successor below \<open>INT_MAX\<close> by \<open>sint_column_plus_one\<close>) only
  when the engine reports a column. A piece the engine does not report adds nothing to the
  string.
\<close>

theorem location_format:
  "\<not> tc_has_terminated tc \<Longrightarrow> tc_message tc = Some m \<Longrightarrow>
   location (ExceptionError tc) =
     Some (resource_name m
           @ (case line_number m of None \<Rightarrow> [] | Some l \<Rightarrow> '':'' @ show_int (sint l))
           @ (case start_column m of None \<Rightarrow> []
              | Some start \<Rightarrow> '':'' @ show_int (sint (start + 1))))"
  by (simp add: ExceptionError_def CopyString_def location_text_def Let_def
           split: option.splits)

theorem location_format_witness:
  "location (ExceptionError \<lparr>tc_has_terminated = False, tc_exception = ''ReferenceError: f is not defined'',
       tc_message = Some \<lparr>resource_name = ''main.js'', line_number = Some 12, start_column = Some 4\<rparr>,
       tc_stack_trace = None\<rparr>) = Some ''main.js:12:5'' \<and>
   location (ExceptionError \<lparr>tc_has_terminated = False, tc_exception = ''ReferenceError: f is not defined'',
       tc_message = Some \<lparr>resource_name = ''main.js'', line_number = None, start_column = Some 4\<rparr>,
       tc_stack_trace = None\<rparr>) = Some ''main.js:5'' \<and>
   location (ExceptionError \<lparr>tc_has_terminated = False, tc_exception = ''ReferenceError: f is not defined'',
       tc_message = Some \<lparr>resource_name = ''main.js'', line_number = Some 12, start_column = None\<rparr>,
       tc_stack_trace = None\<rparr>) = Some ''main.js:12'' \<and>
   location (ExceptionError \<lparr>tc_has_terminated = False, tc_exception = ''ReferenceError: f is not defined'',
       tc_message = Some \<lparr>resource_name = ''main.js'', line_number = None, start_column = None\<rparr>,
       tc_stack_trace = None\<rparr>) = Some ''main.js''"
  using
    location_format [of "\<lparr>tc_has_terminated = False, tc_exception = ''ReferenceError: f is not defined'',
       tc_message = Some \<lparr>resource_name = ''main.js'', line_number = Some 12, start_column = Some 4\<rparr>,
       tc_stack_trace = None\<rparr>" "\<lparr>resource_name = ''main.js'', line_number = Some 12, start_column = Some 4\<rparr>"]
    location_format [of "\<lparr>tc_has_terminated = False, tc_exception = ''ReferenceError: f is not defined'',
       tc_message = Some \<lparr>resource_name = ''main.js'', line_number = None, start_column = Some 4\<rparr>,
       tc_stack_trace = None\<rparr>" "\<lparr>resource_name = ''main.js'', line_number = None, start_column = Some 4\<rparr>"]
    location_format [of "\<lparr>tc_has_terminated = False, tc_exception = ''ReferenceError: f is not defined'',
       tc_message = Some \<lparr>resource_name = ''main.js'', line_number = Some 12, start_column = None\<rparr>,
       tc_stack_trace = None\<rparr>" "\<lparr>resource_name = ''main.js'', line_number = Some 12, start_column = None\<rparr>"]
    location_format [of "\<lparr>tc_has_terminated = False, tc_exception = ''ReferenceError: f is not defined'',
       tc_message = Some \<lparr>resource_name = ''main.js'', line_number = None, start_column = None\<rparr>,
       tc_stack_trace = None\<rparr>" "\<lparr>resource_name = ''main.js'', line_number = None, start_column = None\<rparr>"]
  by (simp add: show_int_def show_nat.simps digit_char_def)

text \<open>
  C5, as the specification states it: an empty stack trace comes back as an empty but
  present string. \<open>CopyString\<close> on a \<open>Utf8Value\<close> of length zero returns
  \<open>nullptr\<close>, so the stack field of such an error is absent, as it is when the engine has
  no stack trace.
\<close>

theorem empty_stack_trace_counterexample:
  "stack (ExceptionError \<lparr>tc_has_terminated = False, tc_exception = ''Error: x'',
       tc_message = None, tc_stack_trace = Some []\<rparr>) \<noteq> Some [] \<and>
   stack (ExceptionError \<lparr>tc_has_terminated = False, tc_exception = ''Error: x'',
       tc_message = None, tc_stack_trace = Some []\<rparr>) =
   stack (ExceptionError \<lparr>tc_has_terminated = False, tc_exception = ''Error: x'',
       tc_message = None, tc_stack_trace = None\<rparr>)"
  by (simp add: ExceptionError_def CopyString_Utf8_def)

text \<open>
  C5, amended: the stack field is absent exactly when execution has terminated, the
  engine has no stack trace, or the stack trace has length zero, and the error record for
  an empty stack trace is the error record for no stack trace; the message is absent
  exactly when execution has not terminated and the thrown value's text has length zero.
  A stack or message that is present is the engine's text of non-zero length, up to its
  first NUL byte; the location is present exactly when execution has not terminated and
  the engine attached a message.
\<close>

theorem absent_fields:
  "(stack (ExceptionError tc) = None \<longleftrightarrow>
      tc_has_terminated tc \<or> tc_stack_trace tc = None \<or> tc_stack_trace tc = Some [])
   \<and> ExceptionError (tc\<lparr>tc_stack_trace := Some []\<rparr>) = ExceptionError (tc\<lparr>tc_stack_trace := None\<rparr>)
   \<and> (msg (ExceptionError tc) = None \<longleftrightarrow> \<not> tc_has_terminated tc \<and> tc_exception tc = [])
   \<and> (\<forall>s. stack (ExceptionError tc) = Some s \<longrightarrow>
          (\<exists>st. tc_stack_trace tc = Some st \<and> st \<noteq> [] \<and> s = c_str st))
   \<and> (\<forall>s. msg (ExceptionError tc) = Some s \<and> \<not> tc_has_terminated tc \<longrightarrow>
          tc_exception tc \<noteq> [] \<and> s = c_str (tc_exception tc))
   \<and> (location (ExceptionError tc) = None \<longleftrightarrow> tc_has_terminated tc \<or> tc_message tc = None)"
  by (auto simp: ExceptionError_def CopyString_def CopyString_Utf8_def Let_def
           split: option.splits)

theorem absent_fields_witness:
  "stack (ExceptionError \<lparr>tc_has_terminated = False, tc_exception = ''Error: x'',
       tc_message = None, tc_stack_trace = Some ''Error: x at f''\<rparr>) = Some ''Error: x at f'' \<and>
   msg (ExceptionError \<lparr>tc_has_terminated = False, tc_exception = ''Error: x'',
       tc_message = None, tc_stack_trace = Some ''Error: x at f''\<rparr>) = Some ''Error: x'' \<and>
   location (ExceptionError \<lparr>tc_has_terminated = False, tc_exception = ''Error: x'',
       tc_message = None, tc_stack_trace = Some ''Error: x at f''\<rparr>) = None"
proof -
  let ?tc = "\<lparr>tc_has_terminated = False, tc_exception = ''Error: x'',
       tc_message = None, tc_stack_trace = Some ''Error: x at f''\<rparr>"
  obtain s where s: "stack (ExceptionError ?tc) = Some s"
    using absent_fields [of ?tc] by (cases "stack (ExceptionError ?tc)") simp_all
  obtain t where t: "msg (ExceptionError ?tc) = Some t"
    using absent_fields [of ?tc] by (cases "msg (ExceptionError ?tc)") simp_all
  have "s = ''Error: x at f''"
    using absent_fields [of ?tc] s by (simp add: c_str_def)
  moreover have "t = ''Error: x''"
    using absent_fields [of ?tc] t by (simp add: c_str_def)
  moreover have "location (ExceptionError ?tc) = None"
    using absent_fields [of ?tc] by simp
  ultimately show ?thesis using s t by simp
qed

section \<open>Facts about handles\<close>

lemma one_isolate_eq:
  "one_isolate =
     \<lparr>next_addr = Suc 0,
      w_isolates = [0 \<mapsto> \<lparr>capture_stack_trace_for_uncaught_exceptions = False,
                            heap_statistics = example_statistics\<rparr>],
      w_contexts = Map.empty, w_templates = Map.empty, w_values = Map.empty\<rparr>"
  by (simp add: one_isolate_def NewIsolate_def empty_world_def Let_def)

lemma ISOLATE_SCOPE_live:
  "w_isolates w a = Some i \<Longrightarrow> ISOLATE_SCOPE w (Some a) = Inr (a, i)"
  by (simp add: ISOLATE_SCOPE_def)

text \<open>The statistics call returns the world it was given, whatever the handle.\<close>

lemma IsolationGetHeapStatistics_reads_only:
  "IsolationGetHeapStatistics ptr w = Inr (st, w') \<Longrightarrow> w' = w"
  by (auto simp: IsolationGetHeapStatistics_def Let_def split: option.splits)

text \<open>
  C8: on a null handle \<open>IsolationGetHeapStatistics\<close> returns the record whose eleven
  fields are all zero, and the world is the one it was called in.
\<close>

theorem heap_statistics_of_null:
  "IsolationGetHeapStatistics None w =
     Inr (\<lparr>total_heap_size = 0, total_heap_size_executable = 0, total_physical_size = 0,
           total_available_size = 0, used_heap_size = 0, heap_size_limit = 0,
           malloced_memory = 0, external_memory = 0, peak_malloced_memory = 0,
           number_of_native_contexts = 0, number_of_detached_contexts = 0\<rparr>, w)"
  by (simp add: IsolationGetHeapStatistics_def)

text \<open>
  C9: each of the four disposal operations, given the null handle, returns normally and
  leaves the world as it was: the null case is decided before any dereference.
\<close>

theorem dispose_null_is_noop:
  "IsolateDispose None w = Inr w \<and> ContextDispose None w = Inr w \<and>
   ObjectTemplateDispose None w = Inr w \<and> ValueDispose None w = Inr w"
  by (simp add: IsolateDispose_def ContextDispose_def ObjectTemplateDispose_def
        ValueDispose_def)

text \<open>
  C7: on a live isolate, \<open>NewContext\<close> with a null template returns a new context
  whose global object is built from \<open>ObjectTemplate::New(iso)\<close>, the empty template,
  and adds or changes no template handle; with a live template it builds the global
  object from that template. Every \<open>NewContext\<close> call that returns, with a null or a
  non-null template, leaves the isolate with the capture of stack traces for uncaught
  exceptions switched on (and with the heap statistics the engine gives after
  \<open>Context::New\<close>), and leaves the other isolates as they were. The setting is
  idempotent: after any further \<open>NewContext\<close> on that isolate the capture is still
  switched on and no other isolate has changed, and a further call with a null template
  succeeds.
\<close>

theorem NewContext_enables_capture:
  assumes "w_isolates w a = Some i"
  shows "(\<exists>w'. NewContext eng (Some a) None w = Inr (Some (next_addr w), w')
            \<and> w_contexts w' (next_addr w) =
                Some \<lparr>c_ptr = Context_New (Some ObjectTemplate_New), c_iso = Assigned (Some a)\<rparr>
            \<and> w_templates w' = w_templates w)
       \<and> (\<forall>t ob. w_templates w t = Some ob \<longrightarrow>
            (\<exists>w'. NewContext eng (Some a) (Some t) w = Inr (Some (next_addr w), w')
               \<and> w_contexts w' (next_addr w) =
                   Some \<lparr>c_ptr = Context_New (Some (ot_ptr ob)), c_iso = Assigned (Some a)\<rparr>))
       \<and> (\<forall>t c w'. NewContext eng (Some a) t w = Inr (c, w') \<longrightarrow>
            w_isolates w' =
              (w_isolates w)(a \<mapsto> \<lparr>capture_stack_trace_for_uncaught_exceptions = True,
                 heap_statistics = Context_New_statistics eng (heap_statistics i)\<rparr>)
            \<and> (\<forall>t2 c2 w2. NewContext eng (Some a) t2 w' = Inr (c2, w2) \<longrightarrow>
                  (\<exists>i2. w_isolates w2 a = Some i2
                     \<and> capture_stack_trace_for_uncaught_exceptions i2)
                  \<and> (\<forall>b. b \<noteq> a \<longrightarrow> w_isolates w2 b = w_isolates w' b))
            \<and> (\<exists>c2 w2. NewContext eng (Some a) None w' = Inr (c2, w2)))"
  using assms
  by (auto simp: NewContext_def ISOLATE_SCOPE_def Let_def split: option.splits sum.splits)

lemma one_template_eq:
  "one_template =
     \<lparr>next_addr = Suc (Suc 0),
      w_isolates = [0 \<mapsto> \<lparr>capture_stack_trace_for_uncaught_exceptions = False,
                            heap_statistics = example_statistics\<rparr>],
      w_contexts = Map.empty,
      w_templates = [Suc 0 \<mapsto> \<lparr>ot_ptr = [], ot_iso = Assigned (Some 0)\<rparr>],
      w_values = Map.empty\<rparr>"
  by (simp add: one_template_def one_isolate_eq NewObjectTemplate_def ISOLATE_SCOPE_def Let_def
        ObjectTemplate_New_def)

theorem NewContext_enables_capture_witness:
  "(\<exists>w' i'. NewContext example_engine (Some 0) None one_isolate = Inr (Some 1, w')
       \<and> w_contexts w' 1 = Some \<lparr>c_ptr = Context_New (Some []), c_iso = Assigned (Some 0)\<rparr>
       \<and> w_isolates w' 0 = Some i' \<and> capture_stack_trace_for_uncaught_exceptions i'
       \<and> (\<exists>c2 w2 i2. NewContext example_engine (Some 0) None w' = Inr (c2, w2)
              \<and> w_isolates w2 0 = Some i2 \<and> capture_stack_trace_for_uncaught_exceptions i2))
   \<and> (\<exists>w' i'. NewContext example_engine (Some 0) (Some 1) one_template = Inr (Some 2, w')
       \<and> w_isolates w' 0 = Some i' \<and> capture_stack_trace_for_uncaught_exceptions i')"
proof -
  let ?i = "\<lparr>capture_stack_trace_for_uncaught_exceptions = False,
             heap_statistics = example_statistics\<rparr>"
  have live: "w_isolates one_isolate 0 = Some ?i"
    by (simp add: one_isolate_eq)
  have live_t: "w_isolates one_template 0 = Some ?i"
    by (simp add: one_template_eq)
  have tmpl: "w_templates one_template 1 = Some \<lparr>ot_ptr = [], ot_iso = Assigned (Some 0)\<rparr>"
    by (simp add: one_template_eq)
  note null = NewContext_enables_capture [OF live, of example_engine]
  note with_t = NewContext_enables_capture [OF live_t, of example_engine]
  from null obtain w' where
    w': "NewContext example_engine (Some 0) None one_isolate = Inr (Some (next_addr one_isolate), w')"
        "w_contexts w' (next_addr one_isolate) =
           Some \<lparr>c_ptr = Context_New (Some ObjectTemplate_New), c_iso = Assigned (Some 0)\<rparr>"
    by blast
  from null w'(1) have
    iso1: "w_isolates w' = (w_isolates one_isolate)(0 \<mapsto>
             \<lparr>capture_stack_trace_for_uncaught_exceptions = True,
              heap_statistics = Context_New_statistics example_engine (heap_statistics ?i)\<rparr>)"
    and again: "\<forall>t2 c2 w2. NewContext example_engine (Some 0) t2 w' = Inr (c2, w2) \<longrightarrow>
             (\<exists>i2. w_isolates w2 0 = Some i2 \<and> capture_stack_trace_for_uncaught_exceptions i2)"
    and second: "\<exists>c2 w2. NewContext example_engine (Some 0) None w' = Inr (c2, w2)"
    by blast+
  from second again obtain c2 w2 i2 where
    "NewContext example_engine (Some 0) None w' = Inr (c2, w2)"
    "w_isolates w2 0 = Some i2" "capture_stack_trace_for_uncaught_exceptions i2"
    by blast
  with w' iso1 have first: "\<exists>w' i'. NewContext example_engine (Some 0) None one_isolate = Inr (Some 1, w')
       \<and> w_contexts w' 1 = Some \<lparr>c_ptr = Context_New (Some []), c_iso = Assigned (Some 0)\<rparr>
       \<and> w_isolates w' 0 = Some i' \<and> capture_stack_trace_for_uncaught_exceptions i'
       \<and> (\<exists>c2 w2 i2. NewContext example_engine (Some 0) None w' = Inr (c2, w2)
              \<and> w_isolates w2 0 = Some i2 \<and> capture_stack_trace_for_uncaught_exceptions i2)"
    by (intro exI [of _ w']) (auto simp: one_isolate_eq ObjectTemplate_New_def)
  from with_t tmpl obtain wt where
    wt: "NewContext example_engine (Some 0) (Some 1) one_template = Inr (Some (next_addr one_template), wt)"
    by blast
  with with_t have "w_isolates wt = (w_isolates one_template)(0 \<mapsto>
             \<lparr>capture_stack_trace_for_uncaught_exceptions = True,
              heap_statistics = Context_New_statistics example_engine (heap_statistics ?i)\<rparr>)"
    by blast
  with wt have "\<exists>w' i'. NewContext example_engine (Some 0) (Some 1) one_template = Inr (Some 2, w')
       \<and> w_isolates w' 0 = Some i' \<and> capture_stack_trace_for_uncaught_exceptions i'"
    by (intro exI [of _ wt]) (auto simp: one_template_eq)
  with first show ?thesis
    by blast
qed

lemma one_context_eq:
  "one_context =
     \<lparr>next_addr = Suc (Suc 0),
      w_isolates = [0 \<mapsto> \<lparr>capture_stack_trace_for_uncaught_exceptions = True,
                            heap_statistics = Context_New_statistics example_engine example_statistics\<rparr>],
      w_contexts = [Suc 0 \<mapsto> \<lparr>c_ptr = Context_New (Some []), c_iso = Assigned (Some 0)\<rparr>],
      w_templates = Map.empty, w_values = Map.empty\<rparr>"
  by (simp add: one_context_def one_isolate_eq NewContext_def ISOLATE_SCOPE_def Let_def
        ObjectTemplate_New_def)

text \<open>In that world the isolate counts its one native context.\<close>

lemma one_context_statistics:
  "IsolationGetHeapStatistics (Some 0) one_context =
     Inr (\<lparr>total_heap_size = 1048576, total_heap_size_executable = 262144,
           total_physical_size = 1048576, total_available_size = 1073741824,
           used_heap_size = 589824, heap_size_limit = 1610612736,
           malloced_memory = 8192, external_memory = 0, peak_malloced_memory = 16384,
           number_of_native_contexts = 1, number_of_detached_contexts = 0\<rparr>, one_context)"
  by (simp add: IsolationGetHeapStatistics_def one_context_eq example_engine_def
        example_statistics_def Let_def)

lemma new_m_value_stores:
  "new_m_value val w = (p, w') \<Longrightarrow> p = Some (next_addr w) \<and> w_values w' (next_addr w) = Some val"
  by (auto simp: new_m_value_def Let_def)

text \<open>A handle whose \<open>ctx_ptr\<close> was never assigned stops \<open>LOCAL_VALUE\<close>.\<close>

lemma LOCAL_VALUE_indeterminate:
  "w_values w a = Some val \<Longrightarrow> ctx_ptr val = Indeterminate \<Longrightarrow>
   LOCAL_VALUE w (Some a) = Inl IndeterminateRead"
  by (simp add: LOCAL_VALUE_def)

text \<open>\<open>LOCAL_VALUE\<close> succeeds only on a handle whose \<open>ctx_ptr\<close> is a live context.\<close>

lemma LOCAL_VALUE_needs_context:
  "LOCAL_VALUE w p = Inr x \<Longrightarrow>
   \<exists>a val c mc. p = Some a \<and> w_values w a = Some val \<and> ctx_ptr val = Assigned (Some c)
      \<and> w_contexts w c = Some mc"
  by (auto simp: LOCAL_VALUE_def split: option.splits member.splits sum.splits)

text \<open>Every inspection and conversion starts with \<open>LOCAL_VALUE\<close> and fails where it fails.\<close>

lemma value_operations_start_with_LOCAL_VALUE:
  "LOCAL_VALUE w p = Inl f \<Longrightarrow>
   ValueToArrayIndex eng p w = Inl f \<and> ValueToBoolean eng p w = Inl f \<and>
   ValueToInt32 eng p w = Inl f \<and> ValueToInteger eng p w = Inl f \<and>
   ValueToNumber eng p w = Inl f \<and> ValueToDetailString eng p w = Inl f \<and>
   ValueToString eng p w = Inl f \<and> ValueToUint32 eng p w = Inl f \<and>
   ValueToBigInt eng p w = Inl f \<and> ValueIs is_x p w = Inl f"
  by (simp add: ValueToArrayIndex_def ValueToBoolean_def ValueToInt32_def ValueToInteger_def
        ValueToNumber_def ValueToDetailString_def ValueToString_def ValueToUint32_def
        ValueToBigInt_def ValueIs_def)

lemma NewValue_leaves_ctx_ptr:
  assumes "r \<in> {NewValueInteger iso_ptr i32 w, NewValueIntegerFromUnsigned iso_ptr u32 w,
                 NewValueString eng iso_ptr s w, NewValueBoolean iso_ptr b w,
                 NewValueNumber iso_ptr d w, NewValueBigInt iso_ptr i64 w,
                 NewValueBigIntFromUnsigned iso_ptr u64 w,
                 NewValueBigIntFromWords eng iso_ptr sb wc ws w}"
      and "r = Inr (p, w')"
  shows "\<exists>val. p = Some (next_addr w) \<and> w_values w' (next_addr w) = Some val
           \<and> ctx_ptr val = Indeterminate"
  using assms
  by (auto simp: NewValueInteger_def NewValueIntegerFromUnsigned_def NewValueString_def
        NewValueBoolean_def NewValueNumber_def NewValueBigInt_def NewValueBigIntFromUnsigned_def
        NewValueBigIntFromWords_def new_m_value_def Let_def
        split: sum.splits option.splits)

text \<open>
  C10: every inspection and conversion returns a result only for a handle whose
  \<open>ctx_ptr\<close> has been assigned a live context, since each one dereferences it in
  \<open>LOCAL_VALUE\<close> before it reads the value; each of the eight \<open>NewValue\<close>
  constructors returns a handle whose \<open>ctx_ptr\<close> is indeterminate; so every inspection
  and conversion of a handle fresh from a constructor is undefined behaviour.
\<close>

theorem NewValue_handles_have_no_context:
  assumes "r \<in> {NewValueInteger iso_ptr i32 w, NewValueIntegerFromUnsigned iso_ptr u32 w,
                 NewValueString eng iso_ptr s w, NewValueBoolean iso_ptr b w,
                 NewValueNumber iso_ptr d w, NewValueBigInt iso_ptr i64 w,
                 NewValueBigIntFromUnsigned iso_ptr u64 w,
                 NewValueBigIntFromWords eng iso_ptr sb wc ws w}"
      and "r = Inr (p, w')"
  shows "(\<exists>a val. p = Some a \<and> w_values w' a = Some val \<and> ctx_ptr val = Indeterminate)
       \<and> (\<forall>x. LOCAL_VALUE w' p \<noteq> Inr x)
       \<and> LOCAL_VALUE w' p = Inl IndeterminateRead
       \<and> ValueToArrayIndex eng p w' = Inl IndeterminateRead
       \<and> ValueToBoolean eng p w' = Inl IndeterminateRead
       \<and> ValueToInt32 eng p w' = Inl IndeterminateRead
       \<and> ValueToInteger eng p w' = Inl IndeterminateRead
       \<and> ValueToNumber eng p w' = Inl IndeterminateRead
       \<and> ValueToDetailString eng p w' = Inl IndeterminateRead
       \<and> ValueToString eng p w' = Inl IndeterminateRead
       \<and> ValueToUint32 eng p w' = Inl IndeterminateRead
       \<and> ValueToBigInt eng p w' = Inl IndeterminateRead
       \<and> ValueIs is_x p w' = Inl IndeterminateRead
       \<and> (\<forall>w0 p0 x. LOCAL_VALUE w0 p0 = Inr x \<longrightarrow>
            (\<exists>a val c mc. p0 = Some a \<and> w_values w0 a = Some val
               \<and> ctx_ptr val = Assigned (Some c) \<and> w_contexts w0 c = Some mc))"
proof -
  from NewValue_leaves_ctx_ptr [OF assms] obtain val where
    val: "p = Some (next_addr w)" "w_values w' (next_addr w) = Some val"
         "ctx_ptr val = Indeterminate"
    by blast
  then have lv: "LOCAL_VALUE w' p = Inl IndeterminateRead"
    by (simp add: LOCAL_VALUE_indeterminate)
  from val have "\<exists>a val. p = Some a \<and> w_values w' a = Some val \<and> ctx_ptr val = Indeterminate"
    by blast
  moreover from lv have "\<forall>x. LOCAL_VALUE w' p \<noteq> Inr x"
    by simp
  moreover have "\<forall>w0 p0 x. LOCAL_VALUE w0 p0 = Inr x \<longrightarrow>
            (\<exists>a val c mc. p0 = Some a \<and> w_values w0 a = Some val
               \<and> ctx_ptr val = Assigned (Some c) \<and> w_contexts w0 c = Some mc)"
    using LOCAL_VALUE_needs_context by blast
  ultimately show ?thesis
    using lv value_operations_start_with_LOCAL_VALUE [OF lv, of eng is_x] by simp
qed

theorem NewValue_handles_have_no_context_witness:
  "\<exists>p w'. NewValueInteger (Some 0) 42 one_isolate = Inr (p, w')
      \<and> LOCAL_VALUE w' p = Inl IndeterminateRead
      \<and> ValueToInt32 example_engine p w' = Inl IndeterminateRead
      \<and> ValueIs (\<lambda>v. True) p w' = Inl IndeterminateRead"
proof -
  obtain p w' where new: "NewValueInteger (Some 0) 42 one_isolate = Inr (p, w')"
    by (simp add: NewValueInteger_def ISOLATE_SCOPE_def one_isolate_eq new_m_value_def Let_def)
  have "NewValueInteger (Some 0) 42 one_isolate \<in>
          {NewValueInteger (Some 0) 42 one_isolate,
           NewValueIntegerFromUnsigned (Some 0) 0 one_isolate,
           NewValueString example_engine (Some 0) [] one_isolate,
           NewValueBoolean (Some 0) 0 one_isolate,
           NewValueNumber (Some 0) 0 one_isolate, NewValueBigInt (Some 0) 0 one_isolate,
           NewValueBigIntFromUnsigned (Some 0) 0 one_isolate,
           NewValueBigIntFromWords example_engine (Some 0) 0 0 [] one_isolate}"
    by simp
  from NewValue_handles_have_no_context [OF this new, of "\<lambda>v. True"] new show ?thesis
    by blast
qed

text \<open>
  C1, on the code: the handle that \<open>NewValueString\<close> returns for the string
  \<open>hello\<close> on a live isolate has an indeterminate \<open>ctx_ptr\<close>, and
  \<open>ValueToString\<close> on it is undefined behaviour instead of returning \<open>hello\<close>.
\<close>

theorem NewValueString_then_ValueToString:
  "\<exists>p w'. NewValueString example_engine (Some 0) ''hello'' one_isolate = Inr (p, w')
      \<and> ValueToString example_engine p w' = Inl IndeterminateRead"
  by (simp add: NewValueString_def ValueToString_def LOCAL_VALUE_def ISOLATE_SCOPE_def
        one_isolate_eq new_m_value_def example_engine_def Let_def)

text \<open>
  C6, on the code: the handle that \<open>NewValueBigIntFromWords\<close> returns for sign bit 0
  and the word sequence \<open>[1]\<close> on a live isolate has an indeterminate \<open>ctx_ptr\<close>, and
  \<open>ValueToBigInt\<close> on it is undefined behaviour instead of returning sign bit 0 and
  \<open>[1]\<close>.
\<close>

theorem NewValueBigIntFromWords_then_ValueToBigInt:
  "\<exists>p w'. NewValueBigIntFromWords example_engine (Some 0) 0 1 [1] one_isolate = Inr (p, w')
      \<and> ValueToBigInt example_engine p w' = Inl IndeterminateRead"
  by (simp add: NewValueBigIntFromWords_def ValueToBigInt_def LOCAL_VALUE_def ISOLATE_SCOPE_def
        one_isolate_eq new_m_value_def example_engine_def Let_def)

section \<open>Facts about \<open>RunScript\<close>\<close>

text \<open>
  Whenever \<open>RunScript\<close> returns, either the value is a new handle and the error record
  is all null, or the value is null and the error record is what \<open>ExceptionError\<close>
  makes of the engine's \<open>TryCatch\<close>.
\<close>

lemma RunScript_returns:
  "RunScript eng c source origin w = Inr (rtn, w') \<Longrightarrow>
   (rtn_value rtn = Some (next_addr w) \<and> rtn_error rtn = \<lparr>msg = None, location = None, stack = None\<rparr>)
   \<or> (rtn_value rtn = None \<and> (\<exists>try_catch. rtn_error rtn = ExceptionError try_catch))"
  by (auto simp: RunScript_def new_m_value_def Let_def
        split: option.splits member.splits sum.splits prod.splits)


text \<open>A handle that \<open>RunScript\<close> returns carries its context, and \<open>LOCAL_VALUE\<close> accepts it.\<close>

lemma RunScript_value_has_context:
  "RunScript eng c source origin w = Inr (rtn, w') \<Longrightarrow> rtn_value rtn = Some v \<Longrightarrow>
   \<exists>x. LOCAL_VALUE w' (Some v) = Inr x"
  by (auto simp: RunScript_def new_m_value_def LOCAL_VALUE_def ISOLATE_SCOPE_def Let_def
        split: option.splits member.splits sum.splits prod.splits)


text \<open>
  Only a \<open>TryCatch\<close> that has not terminated, holds an exception of empty text and has
  neither a message nor a stack trace gives the all-null record.
\<close>

lemma ExceptionError_all_null:
  "ExceptionError \<lparr>tc_has_terminated = False, tc_exception = [], tc_message = None,
      tc_stack_trace = None\<rparr> = \<lparr>msg = None, location = None, stack = None\<rparr>"
  by (simp add: ExceptionError_def CopyString_Utf8_def)




text \<open>
  A \<open>RunScript\<close> whose execution the engine reports as terminated returns no value and
  the termination record.
\<close>

lemma RunScript_terminated:
  assumes "RunScript eng (Some c) source origin w = Inr (rtn, w')"
      and "w_contexts w c = Some ctx"
      and "String_NewFromUtf8 eng (c_str source) = Some src"
      and "String_NewFromUtf8 eng (c_str origin) = Some ogn"
      and "Script_Compile eng (c_ptr ctx) src ogn = Inr script"
      and "Script_Run eng script (c_ptr ctx) = Inl try_catch"
      and "tc_has_terminated try_catch"
  shows "rtn = \<lparr>rtn_value = None,
                 rtn_error = \<lparr>msg = Some ''ExecutionTerminated: script execution has been terminated'',
                              location = None, stack = None\<rparr>\<rparr>"
  using assms
  by (auto simp: RunScript_def ExceptionError_def CopyString_def Let_def
        split: option.splits member.splits sum.splits)

text \<open>
  On a handle that has its context, \<open>ValueToString\<close> returns the value's text, and
  \<open>nullptr\<close> when the text is empty.
\<close>

lemma ValueToString_with_context:
  "LOCAL_VALUE w p = Inr (ctx, v) \<Longrightarrow>
   ValueToString eng p w =
     Inr (if Utf8Value_of eng v = [] then None else Some (c_str (Utf8Value_of eng v)))"
  by (simp add: ValueToString_def CopyString_Utf8_def CopyString_def)

text \<open>
  The handles \<open>RunScript\<close> returns convert: the BigInt 1 gives sign bit 0 and the words
  \<open>[1]\<close>, and the empty string gives \<open>nullptr\<close>.
\<close>

lemma RunScript_bigint_converts:
  "\<exists>w'. RunScript example_engine (Some 1) ''1n'' ''x.js'' one_context =
           Inr (\<lparr>rtn_value = Some 2,
                 rtn_error = \<lparr>msg = None, location = None, stack = None\<rparr>\<rparr>, w')
        \<and> ValueToBigInt example_engine (Some 2) w' =
           Inr \<lparr>word_array = Some [1], word_count = 1, sign_bit = 0\<rparr>"
  by (simp add: RunScript_def ValueToBigInt_def LOCAL_VALUE_def ISOLATE_SCOPE_def
        one_context_eq example_engine_def new_m_value_def c_str_def Let_def)

lemma RunScript_empty_string_converts:
  "\<exists>w'. RunScript example_engine (Some 1) ''String()'' ''x.js'' one_context =
           Inr (\<lparr>rtn_value = Some 2,
                 rtn_error = \<lparr>msg = None, location = None, stack = None\<rparr>\<rparr>, w')
        \<and> ValueToString example_engine (Some 2) w' = Inr None"
  by (simp add: RunScript_def ValueToString_def LOCAL_VALUE_def ISOLATE_SCOPE_def
        one_context_eq example_engine_def new_m_value_def c_str_def CopyString_Utf8_def Let_def)

end
